theory Spec2Isabelle
  imports Main "HOL-Library.Product_Lexorder"
begin

section \<open>Data model (backend/app/models.py)\<close>

text \<open>
  Identifiers are UUIDs; only their equality matters, so they are natural numbers.
  A \<open>date\<close> is its proleptic Gregorian ordinal (Python's \<open>date.toordinal()\<close>, day 1 being
  Monday 0001-01-01), a \<open>time\<close> is a naive time of day in microseconds since midnight;
  both are compared by the order of the numbers, as Python compares the values.
  A \<open>datetime\<close> is the pair built by \<open>datetime.combine\<close>, ordered lexicographically.
\<close>

type_synonym uuid = nat
type_synonym date = int
type_synonym time = nat
type_synonym datetime = "date \<times> time"

definition weekday :: "date \<Rightarrow> nat" where
  \<comment> \<open>\<open>date.weekday()\<close>: Monday is 0, Sunday is 6.\<close>
  "weekday d = nat ((d + 6) mod 7)"

definition time_hm :: "nat \<Rightarrow> nat \<Rightarrow> time" where
  \<comment> \<open>\<open>time(h, m)\<close>\<close>
  "time_hm h m = (h * 60 + m) * 60000000"

datatype UserType = CLIENT | NUTRITIONIST | ADMIN

datatype AppointmentStatus = SCHEDULED | CANCELLED | COMPLETED

text \<open>Of a user the routes read the id and the user type (the e-mail address and the name
  only feed the notification e-mails, which are sent after the decision and whose failure is
  swallowed).\<close>

record User =
  u_id :: uuid
  u_user_type :: UserType

record AvailabilityCreate =
  ac_day_of_week :: "nat option"
  ac_start_time :: time
  ac_end_time :: time
  ac_is_recurring :: bool
  ac_specific_date :: "date option"

record Availability =
  av_id :: uuid
  av_nutritionist_id :: uuid
  av_day_of_week :: "nat option"
  av_start_time :: time
  av_end_time :: time
  av_is_recurring :: bool
  av_specific_date :: "date option"
  av_created_at :: "date option"
  av_updated_at :: "date option"

text \<open>\<open>AvailabilityUpdate\<close> inherits the required \<open>start_time\<close> and \<open>end_time\<close> of
  \<open>AvailabilityBase\<close>; of the other fields \<open>None\<close> stands for a field the request does
  not carry (\<open>model_dump(exclude_unset=True)\<close> leaves it out), \<open>Some v\<close> for a field sent
  with value \<open>v\<close> (\<open>v\<close> itself \<open>None\<close> for a JSON null).\<close>

record AvailabilityUpdate =
  au_day_of_week :: "nat option option"
  au_start_time :: time
  au_end_time :: time
  au_is_recurring :: "bool option"
  au_specific_date :: "date option option"

record AppointmentCreate =
  c_nutritionist_id :: uuid
  c_date :: date
  c_start_time :: time
  c_end_time :: time
  c_status :: AppointmentStatus
  c_notes :: "string option"

record Appointment =
  a_id :: uuid
  a_client_id :: uuid
  a_nutritionist_id :: uuid
  a_date :: date
  a_start_time :: time
  a_end_time :: time
  a_status :: AppointmentStatus
  a_notes :: "string option"
  a_created_at :: "date option"
  a_updated_at :: "date option"

text \<open>\<open>AppointmentUpdate\<close>: every field is optional. \<open>None\<close> is a field the request does
  not carry; for \<open>notes\<close>, the one nullable column, \<open>Some None\<close> is an explicit null.
  The class declares \<^verbatim>\<open>date: Optional[date] = None\<close>: in the class body the name
  \<open>date\<close> is bound to \<open>None\<close> before the annotation is read, so the type of the field is
  \<open>NoneType\<close> and a request that carries a date fails schema validation (422) before the
  route runs. A request the route sees therefore never has a date, and the record has no
  such field. (An explicit null for \<open>date\<close>, \<open>start_time\<close>, \<open>end_time\<close> or \<open>status\<close>
  would be written to a column that is not nullable; such requests are outside this
  model.)\<close>

record AppointmentUpdate =
  p_start_time :: "time option"
  p_end_time :: "time option"
  p_status :: "AppointmentStatus option"
  p_notes :: "string option option"

text \<open>Request bodies are those that pass schema validation (a \<open>day_of_week\<close> between 0 and
  6, notes of at most 1000 characters); the routes do not look at these bounds again.\<close>

text \<open>The tables a request reads and writes through its session.\<close>

record database =
  users :: "User list"
  availabilities :: "Availability list"
  appointments :: "Appointment list"

text \<open>The two clock readings of the code: \<open>datetime.now()\<close> (naive local time, compared
  with the slot) and \<open>datetime.now(timezone.utc).date()\<close> (the stamp of \<open>created_at\<close> and
  \<open>updated_at\<close>).\<close>

record clock =
  now :: datetime
  utc_today :: date

text \<open>
  The reasons of an \<open>HTTPException\<close>, under the names of the specification's taxonomy:
  \<^item> \<open>NotFound\<close>: 404 "Nutritionist not found", "Appointment not found",
    "Availability slot not found";
  \<^item> \<open>Forbidden\<close>: 403 "Not enough permissions", "Only nutritionists can create
    availability slots";
  \<^item> \<open>InvalidRange\<close>: 400 "End time must be after start time";
  \<^item> \<open>InThePast\<close>: 400 "Appointment time must be in the future";
  \<^item> \<open>SlotBooked\<close>: 400 "The selected time slot is already booked" (create),
    "The selected time slot conflicts with another appointment" (update);
  \<^item> \<open>OutsideAvailability\<close>: 400 "The selected time slot is not available" (create),
    "The selected time slot is not within nutritionist's availability" (update);
  \<^item> \<open>AlreadyCancelled\<close>: 400 "Appointment is already cancelled";
  \<^item> \<open>DayOfWeekRequired\<close>: 400 "Day of week is required for recurring availability";
  \<^item> \<open>SpecificDateRequired\<close>: 400 "Specific date is required for non-recurring
    availability".

  \<open>ArgumentError\<close> is no \<open>HTTPException\<close>: it is the exception SQLAlchemy raises when a
  statement cannot be built. No route catches it, so the request ends in a server error.
\<close>

datatype error =
  NotFound | Forbidden | InvalidRange | InThePast | SlotBooked | OutsideAvailability
  | AlreadyCancelled | DayOfWeekRequired | SpecificDateRequired | ArgumentError

section \<open>Queries (backend/app/crud.py)\<close>

definition get_user_by_id :: "database \<Rightarrow> uuid \<Rightarrow> User option" where
  "get_user_by_id s user_id = find (\<lambda>u. u_id u = user_id) (users s)"

definition get_appointment_by_id :: "database \<Rightarrow> uuid \<Rightarrow> Appointment option" where
  "get_appointment_by_id s appointment_id =
     find (\<lambda>a. a_id a = appointment_id) (appointments s)"

definition get_availability_by_id :: "database \<Rightarrow> uuid \<Rightarrow> Availability option" where
  "get_availability_by_id s availability_id =
     find (\<lambda>v. av_id v = availability_id) (availabilities s)"

text \<open>\<open>get_appointments_by_date_range\<close>: the three optional filters are applied when they
  are given; the rows come ordered by date and start time.\<close>

definition get_appointments_by_date_range ::
  "database \<Rightarrow> uuid option \<Rightarrow> uuid option \<Rightarrow> date \<Rightarrow> date \<Rightarrow> AppointmentStatus option
     \<Rightarrow> Appointment list" where
  "get_appointments_by_date_range s nutritionist_id client_id start_date end_date status =
     sort_key (\<lambda>a. (a_date a, a_start_time a))
       (filter (\<lambda>a. start_date \<le> a_date a \<and> a_date a \<le> end_date
            \<and> (case nutritionist_id of None \<Rightarrow> True | Some n \<Rightarrow> a_nutritionist_id a = n)
            \<and> (case client_id of None \<Rightarrow> True | Some c \<Rightarrow> a_client_id a = c)
            \<and> (case status of None \<Rightarrow> True | Some st \<Rightarrow> a_status a = st))
          (appointments s))"

text \<open>
  \<open>get_availabilities_by_date_range\<close> builds its statement as
  \<^verbatim>\<open>
  select(Availability).where(
      Availability.nutritionist_id == nutritionist_id,
      or_(Availability.is_recurring == True,
          (Availability.is_recurring == False,
           Availability.specific_date >= start_date,
           Availability.specific_date <= end_date)))
  \<close>
  The second argument of \<open>or_\<close> is a Python tuple of three conditions, not an SQL
  expression (the conjunction its comment describes would be \<open>and_\<close> of the three).
  SQLAlchemy refuses a tuple as a clause while the statement is built, before the session
  reads a row. So the function raises \<open>ArgumentError\<close> whatever its arguments and the
  tables are, and returns no list.
\<close>

definition get_availabilities_by_date_range ::
  "database \<Rightarrow> uuid \<Rightarrow> date \<Rightarrow> date \<Rightarrow> error + Availability list" where
  "get_availabilities_by_date_range s nutritionist_id start_date end_date = Inl ArgumentError"

section \<open>Conflict checker and availability containment (backend/app/api/routes/appointments.py)\<close>

text \<open>The condition of the conflict loops of \<open>create_appointment\<close> and
  \<open>update_appointment\<close>: the new slot against an existing appointment's slot.\<close>

definition time_conflict :: "time \<Rightarrow> time \<Rightarrow> time \<Rightarrow> time \<Rightarrow> bool" where
  "time_conflict new_start new_end ex_start ex_end =
     ((new_start \<ge> ex_start \<and> new_start < ex_end)
      \<or> (new_end > ex_start \<and> new_end \<le> ex_end)
      \<or> (new_start \<le> ex_start \<and> new_end \<ge> ex_end))"

text \<open>The half-open overlap test as the specification words it.\<close>

definition half_open_overlap :: "time \<Rightarrow> time \<Rightarrow> time \<Rightarrow> time \<Rightarrow> bool" where
  "half_open_overlap s1 e1 s2 e2 = (s1 < e2 \<and> s2 < e1)"

text \<open>The loop of \<open>create_appointment\<close> over the existing appointments: \<open>True\<close> when it
  raises.\<close>

fun has_time_conflict :: "time \<Rightarrow> time \<Rightarrow> Appointment list \<Rightarrow> bool" where
  "has_time_conflict new_start new_end [] = False"
| "has_time_conflict new_start new_end (existing_appt # rest) =
     (if time_conflict new_start new_end (a_start_time existing_appt) (a_end_time existing_appt)
      then True
      else has_time_conflict new_start new_end rest)"

text \<open>The loop of \<open>update_appointment\<close>, which skips the appointment being updated.\<close>

fun has_time_conflict_excluding :: "uuid \<Rightarrow> time \<Rightarrow> time \<Rightarrow> Appointment list \<Rightarrow> bool" where
  "has_time_conflict_excluding appointment_id new_start new_end [] = False"
| "has_time_conflict_excluding appointment_id new_start new_end (existing_appt # rest) =
     (if a_id existing_appt \<noteq> appointment_id
         \<and> time_conflict new_start new_end (a_start_time existing_appt) (a_end_time existing_appt)
      then True
      else has_time_conflict_excluding appointment_id new_start new_end rest)"

text \<open>The availability loop: the value of \<open>is_available\<close> when the loop ends.\<close>

fun is_available :: "date \<Rightarrow> time \<Rightarrow> time \<Rightarrow> Availability list \<Rightarrow> bool" where
  "is_available new_date new_start new_end [] = False"
| "is_available new_date new_start new_end (avail # rest) =
     (if (av_is_recurring avail \<and> av_day_of_week avail = Some (weekday new_date))
         \<or> (\<not> av_is_recurring avail \<and> av_specific_date avail = Some new_date)
      then (if new_start \<ge> av_start_time avail \<and> new_end \<le> av_end_time avail
            then True
            else is_available new_date new_start new_end rest)
      else is_available new_date new_start new_end rest)"

section \<open>Writes (backend/app/crud.py)\<close>

text \<open>A new row gets a fresh primary key (\<open>uuid.uuid4()\<close>), here the argument \<open>new_id\<close>.
  A changed row is written back under its primary key.\<close>

definition crud_create_appointment ::
  "clock \<Rightarrow> uuid \<Rightarrow> AppointmentCreate \<Rightarrow> uuid \<Rightarrow> database \<Rightarrow> Appointment \<times> database" where
  "crud_create_appointment clk new_id appointment_in client_id s =
     (let db_appointment =
        \<lparr>a_id = new_id, a_client_id = client_id,
         a_nutritionist_id = c_nutritionist_id appointment_in,
         a_date = c_date appointment_in,
         a_start_time = c_start_time appointment_in,
         a_end_time = c_end_time appointment_in,
         a_status = c_status appointment_in,
         a_notes = c_notes appointment_in,
         a_created_at = Some (utc_today clk),
         a_updated_at = Some (utc_today clk)\<rparr>
      in (db_appointment, s\<lparr>appointments := appointments s @ [db_appointment]\<rparr>))"

definition store_appointment :: "Appointment \<Rightarrow> database \<Rightarrow> database" where
  "store_appointment a s =
     s\<lparr>appointments := map (\<lambda>b. if a_id b = a_id a then a else b) (appointments s)\<rparr>"

definition crud_update_appointment ::
  "clock \<Rightarrow> Appointment \<Rightarrow> AppointmentUpdate \<Rightarrow> database \<Rightarrow> Appointment \<times> database" where
  "crud_update_appointment clk db_appointment appointment_in s =
     (let updated = db_appointment
        \<lparr>a_start_time :=
           (case p_start_time appointment_in of None \<Rightarrow> a_start_time db_appointment | Some t \<Rightarrow> t),
         a_end_time :=
           (case p_end_time appointment_in of None \<Rightarrow> a_end_time db_appointment | Some t \<Rightarrow> t),
         a_status :=
           (case p_status appointment_in of None \<Rightarrow> a_status db_appointment | Some st \<Rightarrow> st),
         a_notes := (case p_notes appointment_in of None \<Rightarrow> a_notes db_appointment | Some n \<Rightarrow> n),
         a_updated_at := Some (utc_today clk)\<rparr>
      in (updated, store_appointment updated s))"

definition crud_cancel_appointment ::
  "clock \<Rightarrow> uuid \<Rightarrow> database \<Rightarrow> Appointment option \<times> database" where
  "crud_cancel_appointment clk appointment_id s =
     (case get_appointment_by_id s appointment_id of
        None \<Rightarrow> (None, s)
      | Some appointment \<Rightarrow>
          (let cancelled = appointment\<lparr>a_status := CANCELLED, a_updated_at := Some (utc_today clk)\<rparr>
           in (Some cancelled, store_appointment cancelled s)))"

definition crud_create_availability ::
  "clock \<Rightarrow> uuid \<Rightarrow> AvailabilityCreate \<Rightarrow> uuid \<Rightarrow> database \<Rightarrow> Availability \<times> database" where
  "crud_create_availability clk new_id availability_in nutritionist_id s =
     (let db_availability =
        \<lparr>av_id = new_id, av_nutritionist_id = nutritionist_id,
         av_day_of_week = ac_day_of_week availability_in,
         av_start_time = ac_start_time availability_in,
         av_end_time = ac_end_time availability_in,
         av_is_recurring = ac_is_recurring availability_in,
         av_specific_date = ac_specific_date availability_in,
         av_created_at = Some (utc_today clk),
         av_updated_at = Some (utc_today clk)\<rparr>
      in (db_availability, s\<lparr>availabilities := availabilities s @ [db_availability]\<rparr>))"

definition store_availability :: "Availability \<Rightarrow> database \<Rightarrow> database" where
  "store_availability v s =
     s\<lparr>availabilities := map (\<lambda>w. if av_id w = av_id v then v else w) (availabilities s)\<rparr>"

definition crud_update_availability ::
  "clock \<Rightarrow> Availability \<Rightarrow> AvailabilityUpdate \<Rightarrow> database \<Rightarrow> Availability \<times> database" where
  "crud_update_availability clk db_availability availability_in s =
     (let updated = db_availability
        \<lparr>av_day_of_week :=
           (case au_day_of_week availability_in of
              None \<Rightarrow> av_day_of_week db_availability | Some d \<Rightarrow> d),
         av_start_time := au_start_time availability_in,
         av_end_time := au_end_time availability_in,
         av_is_recurring :=
           (case au_is_recurring availability_in of
              None \<Rightarrow> av_is_recurring db_availability | Some r \<Rightarrow> r),
         av_specific_date :=
           (case au_specific_date availability_in of
              None \<Rightarrow> av_specific_date db_availability | Some d \<Rightarrow> d),
         av_updated_at := Some (utc_today clk)\<rparr>
      in (updated, store_availability updated s))"

section \<open>Appointment routes (backend/app/api/routes/appointments.py)\<close>

text \<open>
  A route returns its response, or the reason of the exception that ended it, together with
  the database after the request. Every exception comes before the first write, so a
  request that ends in one returns the database it was given.
\<close>

definition create_appointment ::
  "clock \<Rightarrow> uuid \<Rightarrow> User \<Rightarrow> AppointmentCreate \<Rightarrow> database \<Rightarrow> (error + Appointment) \<times> database"
  where
  "create_appointment clk new_id current_user appointment_in s =
     (case get_user_by_id s (c_nutritionist_id appointment_in) of
        None \<Rightarrow> (Inl NotFound, s)
      | Some nutritionist \<Rightarrow>
          if u_user_type nutritionist \<noteq> NUTRITIONIST then (Inl NotFound, s)
          else if c_start_time appointment_in \<ge> c_end_time appointment_in
          then (Inl InvalidRange, s)
          else if (c_date appointment_in, c_start_time appointment_in) < now clk
          then (Inl InThePast, s)
          else if has_time_conflict (c_start_time appointment_in) (c_end_time appointment_in)
                 (get_appointments_by_date_range s (Some (c_nutritionist_id appointment_in)) None
                    (c_date appointment_in) (c_date appointment_in) (Some SCHEDULED))
          then (Inl SlotBooked, s)
          else
            (case get_availabilities_by_date_range s (c_nutritionist_id appointment_in)
                    (c_date appointment_in) (c_date appointment_in) of
               Inl e \<Rightarrow> (Inl e, s)
             | Inr avails \<Rightarrow>
                 if \<not> is_available (c_date appointment_in)
                      (c_start_time appointment_in) (c_end_time appointment_in) avails
                 then (Inl OutsideAvailability, s)
                 else (case crud_create_appointment clk new_id appointment_in
                              (u_id current_user) s of
                         (appointment, s') \<Rightarrow> (Inr appointment, s'))))"

text \<open>The permission test shared by the read, update and cancel routes: \<open>True\<close> when the
  route raises 403.\<close>

definition not_enough_permissions :: "User \<Rightarrow> Appointment \<Rightarrow> bool" where
  "not_enough_permissions current_user appointment =
     (u_id current_user \<noteq> a_client_id appointment
      \<and> u_id current_user \<noteq> a_nutritionist_id appointment
      \<and> u_user_type current_user \<noteq> ADMIN)"

text \<open>The block of \<open>update_appointment\<close> that validates a new slot: the reason of the
  exception that ends it, or \<open>None\<close> when it ends without one (also when the request
  carries no time). \<open>appointment_in.date\<close> is always \<open>None\<close>, so the block is entered
  when the request carries a start or an end time, and \<open>new_date\<close> is the stored date.
  \<open>x or y\<close> takes the request's value when there is one (a time of day is never
  falsy).\<close>

definition update_slot_error ::
  "clock \<Rightarrow> Appointment \<Rightarrow> AppointmentUpdate \<Rightarrow> database \<Rightarrow> error option" where
  "update_slot_error clk appointment appointment_in s =
     (if p_start_time appointment_in \<noteq> None \<or> p_end_time appointment_in \<noteq> None
      then
        (let new_date = a_date appointment;
             new_start_time =
               (case p_start_time appointment_in of Some t \<Rightarrow> t | None \<Rightarrow> a_start_time appointment);
             new_end_time =
               (case p_end_time appointment_in of Some t \<Rightarrow> t | None \<Rightarrow> a_end_time appointment)
         in if new_start_time \<ge> new_end_time then Some InvalidRange
            else if (new_date, new_start_time) < now clk then Some InThePast
            else if has_time_conflict_excluding (a_id appointment) new_start_time new_end_time
                   (get_appointments_by_date_range s (Some (a_nutritionist_id appointment)) None
                      new_date new_date (Some SCHEDULED))
            then Some SlotBooked
            else
              (case get_availabilities_by_date_range s (a_nutritionist_id appointment)
                      new_date new_date of
                 Inl e \<Rightarrow> Some e
               | Inr avails \<Rightarrow>
                   if \<not> is_available new_date new_start_time new_end_time avails
                   then Some OutsideAvailability
                   else None))
      else None)"

definition update_appointment ::
  "clock \<Rightarrow> User \<Rightarrow> uuid \<Rightarrow> AppointmentUpdate \<Rightarrow> database \<Rightarrow> (error + Appointment) \<times> database"
  where
  "update_appointment clk current_user appointment_id appointment_in s =
     (case get_appointment_by_id s appointment_id of
        None \<Rightarrow> (Inl NotFound, s)
      | Some appointment \<Rightarrow>
          if not_enough_permissions current_user appointment then (Inl Forbidden, s)
          else (case update_slot_error clk appointment appointment_in s of
                  Some e \<Rightarrow> (Inl e, s)
                | None \<Rightarrow>
                    (case crud_update_appointment clk appointment appointment_in s of
                       (updated_appointment, s') \<Rightarrow> (Inr updated_appointment, s'))))"

definition cancel_appointment ::
  "clock \<Rightarrow> User \<Rightarrow> uuid \<Rightarrow> database \<Rightarrow> (error + string) \<times> database" where
  "cancel_appointment clk current_user appointment_id s =
     (case get_appointment_by_id s appointment_id of
        None \<Rightarrow> (Inl NotFound, s)
      | Some appointment \<Rightarrow>
          if not_enough_permissions current_user appointment then (Inl Forbidden, s)
          else if a_status appointment = CANCELLED then (Inl AlreadyCancelled, s)
          else (case crud_cancel_appointment clk appointment_id s of
                  (cancelled_appointment, s') \<Rightarrow>
                    (Inr ''Appointment cancelled successfully'', s')))"

section \<open>Availability routes (backend/app/api/routes/availability.py)\<close>

definition create_availability ::
  "clock \<Rightarrow> uuid \<Rightarrow> User \<Rightarrow> AvailabilityCreate \<Rightarrow> database \<Rightarrow> (error + Availability) \<times> database"
  where
  "create_availability clk new_id current_user availability_in s =
     (if u_user_type current_user \<noteq> NUTRITIONIST then (Inl Forbidden, s)
      else if ac_start_time availability_in \<ge> ac_end_time availability_in
      then (Inl InvalidRange, s)
      else if ac_is_recurring availability_in \<and> ac_day_of_week availability_in = None
      then (Inl DayOfWeekRequired, s)
      else if \<not> ac_is_recurring availability_in \<and> ac_specific_date availability_in = None
      then (Inl SpecificDateRequired, s)
      else (case crud_create_availability clk new_id availability_in (u_id current_user) s of
              (availability, s') \<Rightarrow> (Inr availability, s')))"

definition update_availability ::
  "clock \<Rightarrow> User \<Rightarrow> uuid \<Rightarrow> AvailabilityUpdate \<Rightarrow> database \<Rightarrow> (error + Availability) \<times> database"
  where
  "update_availability clk current_user availability_id availability_in s =
     (case get_availability_by_id s availability_id of
        None \<Rightarrow> (Inl NotFound, s)
      | Some availability \<Rightarrow>
          if av_nutritionist_id availability \<noteq> u_id current_user then (Inl Forbidden, s)
          else if au_start_time availability_in \<ge> au_end_time availability_in
          then (Inl InvalidRange, s)
          else (case crud_update_availability clk availability availability_in s of
                  (updated_availability, s') \<Rightarrow> (Inr updated_availability, s')))"

section \<open>The appointment invariant\<close>


section \<open>Serving requests one after the other\<close>




section \<open>Example data\<close>

text \<open>A small practice, used to run the routes on concrete requests.\<close>

definition tuesday :: date where
  \<comment> \<open>2026-11-10, a Tuesday\<close>
  "tuesday = 739930"

definition ex_clock :: clock where
  \<comment> \<open>2026-11-03, 12:00\<close>
  "ex_clock = \<lparr>now = (739923, time_hm 12 0), utc_today = 739923\<rparr>"

definition ex_clock_at_slot :: clock where
  \<comment> \<open>2026-11-10, 10:00 sharp\<close>
  "ex_clock_at_slot = \<lparr>now = (tuesday, time_hm 10 0), utc_today = tuesday\<rparr>"

definition ex_rule :: "uuid \<Rightarrow> uuid \<Rightarrow> Availability" where
  \<comment> \<open>a recurring rule, Tuesdays 09:00 to 17:00\<close>
  "ex_rule rule_id n =
     \<lparr>av_id = rule_id, av_nutritionist_id = n, av_day_of_week = Some 1,
      av_start_time = time_hm 9 0, av_end_time = time_hm 17 0, av_is_recurring = True,
      av_specific_date = None, av_created_at = Some 739900, av_updated_at = Some 739900\<rparr>"

definition ex_user :: "uuid \<Rightarrow> UserType \<Rightarrow> User" where
  "ex_user i ty = \<lparr>u_id = i, u_user_type = ty\<rparr>"

definition ex_practice :: database where
  \<comment> \<open>two nutritionists (1 and 2) with the Tuesday rule each, three clients, no appointment\<close>
  "ex_practice =
     \<lparr>users = [ex_user 1 NUTRITIONIST, ex_user 2 NUTRITIONIST,
               ex_user 10 CLIENT, ex_user 11 CLIENT, ex_user 12 CLIENT],
      availabilities = [ex_rule 50 1, ex_rule 51 2],
      appointments = []\<rparr>"

definition ex_request :: "uuid \<Rightarrow> time \<Rightarrow> time \<Rightarrow> AppointmentCreate" where
  "ex_request n t1 t2 =
     \<lparr>c_nutritionist_id = n, c_date = tuesday, c_start_time = t1, c_end_time = t2,
      c_status = SCHEDULED, c_notes = None\<rparr>"

definition ex_appointment ::
  "uuid \<Rightarrow> uuid \<Rightarrow> uuid \<Rightarrow> time \<Rightarrow> time \<Rightarrow> AppointmentStatus \<Rightarrow> date \<Rightarrow> Appointment" where
  "ex_appointment i c n t1 t2 st stamp =
     \<lparr>a_id = i, a_client_id = c, a_nutritionist_id = n, a_date = tuesday,
      a_start_time = t1, a_end_time = t2, a_status = st, a_notes = None,
      a_created_at = Some 739923, a_updated_at = Some stamp\<rparr>"

definition ex_booked :: database where
  \<comment> \<open>client 10 holds a Scheduled appointment with nutritionist 1, Tuesday 10:00 to 11:00\<close>
  "ex_booked = ex_practice
     \<lparr>appointments := [ex_appointment 100 10 1 (time_hm 10 0) (time_hm 11 0) SCHEDULED 739923]\<rparr>"

definition ex_cancelled :: database where
  \<comment> \<open>the same appointment, Cancelled\<close>
  "ex_cancelled = ex_practice
     \<lparr>appointments := [ex_appointment 100 10 1 (time_hm 10 0) (time_hm 11 0) CANCELLED 739923]\<rparr>"

section \<open>Evaluation rules and the loops as searches\<close>

lemmas example_defs =
  tuesday_def ex_clock_def ex_clock_at_slot_def ex_rule_def ex_user_def ex_practice_def
  ex_request_def ex_appointment_def ex_booked_def ex_cancelled_def time_hm_def weekday_def

lemmas route_defs =
  create_appointment_def update_appointment_def cancel_appointment_def update_slot_error_def
  not_enough_permissions_def create_availability_def update_availability_def
  get_user_by_id_def get_appointment_by_id_def get_availability_by_id_def
  get_appointments_by_date_range_def get_availabilities_by_date_range_def
  crud_create_appointment_def crud_update_appointment_def crud_cancel_appointment_def
  crud_create_availability_def crud_update_availability_def
  store_appointment_def store_availability_def time_conflict_def Let_def

text \<open>Each loop leaves with \<open>True\<close> exactly when some element of the list passes its
  test; the appointment query returns the rows that pass its filters.\<close>

lemma has_time_conflict_iff:
  "has_time_conflict st en xs
     \<longleftrightarrow> (\<exists>a\<in>set xs. time_conflict st en (a_start_time a) (a_end_time a))"
  by (induction xs) auto

lemma has_time_conflict_excluding_iff:
  "has_time_conflict_excluding aid st en xs
     \<longleftrightarrow> (\<exists>a\<in>set xs. a_id a \<noteq> aid \<and> time_conflict st en (a_start_time a) (a_end_time a))"
  by (induction xs) auto

lemma is_available_iff:
  "is_available d st en avs
     \<longleftrightarrow> (\<exists>r\<in>set avs.
            ((av_is_recurring r \<and> av_day_of_week r = Some (weekday d))
             \<or> (\<not> av_is_recurring r \<and> av_specific_date r = Some d))
            \<and> av_start_time r \<le> st \<and> en \<le> av_end_time r)"
  by (induction avs) auto

lemma set_scheduled_on_day:
  "set (get_appointments_by_date_range s (Some n) None d d (Some SCHEDULED))
     = {a \<in> set (appointments s). a_nutritionist_id a = n \<and> a_date a = d \<and> a_status a = SCHEDULED}"
  by (auto simp: get_appointments_by_date_range_def)

lemma conflict_on_day_iff:
  "has_time_conflict st en (get_appointments_by_date_range s (Some n) None d d (Some SCHEDULED))
     \<longleftrightarrow> (\<exists>a\<in>set (appointments s). a_nutritionist_id a = n \<and> a_date a = d
            \<and> a_status a = SCHEDULED \<and> time_conflict st en (a_start_time a) (a_end_time a))"
  unfolding has_time_conflict_iff set_scheduled_on_day by auto

lemma conflict_excluding_on_day_iff:
  "has_time_conflict_excluding aid st en
       (get_appointments_by_date_range s (Some n) None d d (Some SCHEDULED))
     \<longleftrightarrow> (\<exists>a\<in>set (appointments s). a_id a \<noteq> aid \<and> a_nutritionist_id a = n \<and> a_date a = d
            \<and> a_status a = SCHEDULED \<and> time_conflict st en (a_start_time a) (a_end_time a))"
  unfolding has_time_conflict_excluding_iff set_scheduled_on_day by auto

text \<open>What \<open>create_appointment\<close> answers: the first of its four checks that fails gives the
  reason; a request that passes the four ends in the exception of the availability query.\<close>

lemma create_appointment_decision:
  "create_appointment clk new_id current_user req s =
     (if map_option u_user_type (get_user_by_id s (c_nutritionist_id req)) \<noteq> Some NUTRITIONIST
      then (Inl NotFound, s)
      else if \<not> c_start_time req < c_end_time req then (Inl InvalidRange, s)
      else if (c_date req, c_start_time req) < now clk then (Inl InThePast, s)
      else if (\<exists>a\<in>set (appointments s). a_nutritionist_id a = c_nutritionist_id req
                 \<and> a_date a = c_date req \<and> a_status a = SCHEDULED
                 \<and> time_conflict (c_start_time req) (c_end_time req) (a_start_time a) (a_end_time a))
      then (Inl SlotBooked, s)
      else (Inl ArgumentError, s))"
proof -
  define booked where "booked \<longleftrightarrow>
    (\<exists>a\<in>set (appointments s). a_nutritionist_id a = c_nutritionist_id req
        \<and> a_date a = c_date req \<and> a_status a = SCHEDULED
        \<and> time_conflict (c_start_time req) (c_end_time req) (a_start_time a) (a_end_time a))"
  have loop: "has_time_conflict (c_start_time req) (c_end_time req)
      (get_appointments_by_date_range s (Some (c_nutritionist_id req)) None
         (c_date req) (c_date req) (Some SCHEDULED)) = booked"
    unfolding booked_def by (rule conflict_on_day_iff)
  show ?thesis
    unfolding create_appointment_def loop get_availabilities_by_date_range_def
      booked_def [symmetric]
    by (cases "get_user_by_id s (c_nutritionist_id req)") (auto simp: not_less)
qed


lemma in_the_past_is_strictly_earlier:
  assumes "map_option u_user_type (get_user_by_id s (c_nutritionist_id req)) = Some NUTRITIONIST"
      and "c_start_time req < c_end_time req"
  shows "create_appointment clk new_id current_user req s = (Inl InThePast, s)
           \<longleftrightarrow> (c_date req, c_start_time req) < now clk"
  unfolding create_appointment_decision using assms by simp

section \<open>The conflict predicate\<close>

text \<open>
  C2. For intervals with \<open>s1 < e1\<close> and \<open>s2 < e2\<close> the three-clause conflict condition of the
  code gives the same truth value as the half-open overlap test \<open>s1 < e2 \<and> s2 < e1\<close>.
\<close>

theorem time_conflict_is_half_open_overlap:
  assumes "s1 < e1" and "s2 < e2"
  shows "time_conflict s1 e1 s2 e2 = half_open_overlap s1 e1 s2 e2"
  using assms unfolding time_conflict_def half_open_overlap_def by auto

theorem time_conflict_is_half_open_overlap_witness:
  "time_hm 10 59 < time_hm 11 30 \<and> time_hm 10 0 < time_hm 11 0
   \<and> time_conflict (time_hm 10 59) (time_hm 11 30) (time_hm 10 0) (time_hm 11 0)
       = half_open_overlap (time_hm 10 59) (time_hm 11 30) (time_hm 10 0) (time_hm 11 0)
   \<and> half_open_overlap (time_hm 10 59) (time_hm 11 30) (time_hm 10 0) (time_hm 11 0)"
proof -
  have h1: "time_hm 10 59 < time_hm 11 30" by (simp add: time_hm_def)
  have h2: "time_hm 10 0 < time_hm 11 0" by (simp add: time_hm_def)
  show ?thesis
    using h1 h2 time_conflict_is_half_open_overlap [OF h1 h2]
    by (simp add: half_open_overlap_def time_hm_def)
qed

section \<open>Availability containment\<close>

text \<open>
  C3. The claim describes the availability check: a slot is accepted exactly when one
  matching rule contains it, and a nutritionist without a matching rule has every
  candidate rejected with \<open>OutsideAvailability\<close>. The loop of the route would do so on
  the list of rules (first four lines below, on the Tuesday rule 09:00 to 17:00), but the
  route never has the list: the query that fetches it raises on every call. A request for
  a nutritionist with no rule at all, which the claim rejects with
  \<open>OutsideAvailability\<close>, ends in \<open>ArgumentError\<close>; so does a request inside the rule,
  which the claim accepts.
\<close>

theorem availability_query_raises_before_the_check:
  "is_available tuesday (time_hm 9 0) (time_hm 10 0) [ex_rule 50 1]
   \<and> is_available tuesday (time_hm 16 0) (time_hm 17 0) [ex_rule 50 1]
   \<and> \<not> is_available tuesday (time_hm 8 0) (time_hm 9 30) [ex_rule 50 1]
   \<and> \<not> is_available tuesday (time_hm 16 30) (time_hm 17 30) [ex_rule 50 1]
   \<and> get_availabilities_by_date_range ex_practice 1 tuesday tuesday = Inl ArgumentError
   \<and> create_appointment ex_clock 100 (ex_user 10 CLIENT)
        (ex_request 1 (time_hm 10 0) (time_hm 11 0)) (ex_practice\<lparr>availabilities := []\<rparr>)
      = (Inl ArgumentError, ex_practice\<lparr>availabilities := []\<rparr>)
   \<and> create_appointment ex_clock 100 (ex_user 10 CLIENT)
        (ex_request 1 (time_hm 10 0) (time_hm 11 0)) ex_practice
      = (Inl ArgumentError, ex_practice)"
  by (simp add: route_defs example_defs)

section \<open>Conflict boundaries\<close>

text \<open>
  C4. With a Scheduled appointment 10:00 to 11:00 of the nutritionist on the date, the
  conflict loop finds no conflict for 11:00 to 12:00 nor for 09:30 to 10:00, and finds one
  for 10:59 to 11:30; accordingly the route does not answer \<open>SlotBooked\<close> to the first
  two requests and answers \<open>SlotBooked\<close> to the third.
\<close>

theorem conflict_boundaries_are_half_open:
  "\<not> has_time_conflict (time_hm 11 0) (time_hm 12 0)
       (get_appointments_by_date_range ex_booked (Some 1) None tuesday tuesday (Some SCHEDULED))
   \<and> \<not> has_time_conflict (time_hm 9 30) (time_hm 10 0)
       (get_appointments_by_date_range ex_booked (Some 1) None tuesday tuesday (Some SCHEDULED))
   \<and> has_time_conflict (time_hm 10 59) (time_hm 11 30)
       (get_appointments_by_date_range ex_booked (Some 1) None tuesday tuesday (Some SCHEDULED))
   \<and> fst (create_appointment ex_clock 101 (ex_user 11 CLIENT)
        (ex_request 1 (time_hm 11 0) (time_hm 12 0)) ex_booked)
      \<noteq> Inl SlotBooked
   \<and> fst (create_appointment ex_clock 101 (ex_user 11 CLIENT)
        (ex_request 1 (time_hm 9 30) (time_hm 10 0)) ex_booked)
      \<noteq> Inl SlotBooked
   \<and> fst (create_appointment ex_clock 101 (ex_user 11 CLIENT)
        (ex_request 1 (time_hm 10 59) (time_hm 11 30)) ex_booked)
      = Inl SlotBooked"
  by (simp add: route_defs example_defs)

section \<open>The time check\<close>

text \<open>
  C5. The claim rejects with \<open>InThePast\<close> every request whose date and start time are not
  strictly later than the current time, a slot that starts exactly now included. The guard
  of the code is \<open>appointment_datetime < datetime.now()\<close>: at 10:00 sharp on the day, a
  request for 10:00 to 11:00 is not rejected with \<open>InThePast\<close>; it goes on through the
  conflict check and ends in the exception of the availability query. One microsecond
  later the same request is rejected with \<open>InThePast\<close>.
\<close>

theorem slot_starting_now_passes_the_time_check:
  "(c_date (ex_request 1 (time_hm 10 0) (time_hm 11 0)),
    c_start_time (ex_request 1 (time_hm 10 0) (time_hm 11 0))) = now ex_clock_at_slot
   \<and> create_appointment ex_clock_at_slot 100 (ex_user 10 CLIENT)
        (ex_request 1 (time_hm 10 0) (time_hm 11 0)) ex_practice
     = (Inl ArgumentError, ex_practice)
   \<and> create_appointment (ex_clock_at_slot\<lparr>now := (tuesday, time_hm 10 0 + 1)\<rparr>) 100
        (ex_user 10 CLIENT) (ex_request 1 (time_hm 10 0) (time_hm 11 0)) ex_practice
     = (Inl InThePast, ex_practice)"
  by (simp add: route_defs example_defs)

section \<open>Order of the checks\<close>

text \<open>
  C6. The claim orders five checks and lets the first failing one give the reason. The
  code has the first four in this order (\<open>create_appointment_decision\<close>), and a request
  that both conflicts and lies outside the rule is rejected with \<open>SlotBooked\<close>, as the
  claim says (third line below). It departs from the claim in two places. A request that
  starts exactly now fails the claim's check (3), yet when it conflicts the code rejects it
  with \<open>SlotBooked\<close> (first two lines). And check (5) never gives a reason: 07:00 to 08:00
  lies outside the Tuesday rule 09:00 to 17:00, as the loop finds on the rule itself, but
  the route ends in the exception of the availability query (last two lines).
\<close>

theorem create_appointment_departs_from_the_check_order:
  "\<not> now ex_clock_at_slot
       < (c_date (ex_request 1 (time_hm 10 0) (time_hm 11 0)),
          c_start_time (ex_request 1 (time_hm 10 0) (time_hm 11 0)))
   \<and> create_appointment ex_clock_at_slot 101 (ex_user 11 CLIENT)
        (ex_request 1 (time_hm 10 0) (time_hm 11 0)) ex_booked
     = (Inl SlotBooked, ex_booked)
   \<and> create_appointment ex_clock 101 (ex_user 11 CLIENT)
        (ex_request 1 (time_hm 8 30) (time_hm 10 30)) ex_booked
     = (Inl SlotBooked, ex_booked)
   \<and> \<not> is_available tuesday (time_hm 7 0) (time_hm 8 0) [ex_rule 50 1]
   \<and> create_appointment ex_clock 101 (ex_user 11 CLIENT)
        (ex_request 1 (time_hm 7 0) (time_hm 8 0)) ex_booked
     = (Inl ArgumentError, ex_booked)"
  by (simp add: route_defs example_defs)

section \<open>Whose appointments the conflict check reads\<close>

text \<open>
  C10. When no Scheduled appointment of the requested nutritionist on the requested date
  conflicts with the slot, \<open>create_appointment\<close> does not answer \<open>SlotBooked\<close>, whatever
  appointments the booking client (or anyone) holds with other nutritionists.
\<close>

theorem conflict_check_reads_target_nutritionist_only:
  assumes "\<forall>a\<in>set (appointments s).
             a_nutritionist_id a = c_nutritionist_id req \<and> a_date a = c_date req
               \<and> a_status a = SCHEDULED
             \<longrightarrow> \<not> time_conflict (c_start_time req) (c_end_time req)
                     (a_start_time a) (a_end_time a)"
  shows "fst (create_appointment clk new_id current_user req s) \<noteq> Inl SlotBooked"
  unfolding create_appointment_decision using assms by auto

theorem conflict_check_reads_target_nutritionist_only_witness:
  "(\<exists>a\<in>set (appointments ex_booked). a_client_id a = 10 \<and> a_nutritionist_id a = 1
       \<and> a_status a = SCHEDULED \<and> a_date a = tuesday
       \<and> time_conflict (time_hm 10 30) (time_hm 11 30) (a_start_time a) (a_end_time a))
   \<and> fst (create_appointment ex_clock 101 (ex_user 10 CLIENT)
        (ex_request 2 (time_hm 10 30) (time_hm 11 30)) ex_booked) \<noteq> Inl SlotBooked
   \<and> fst (create_appointment ex_clock 101 (ex_user 10 CLIENT)
        (ex_request 1 (time_hm 10 30) (time_hm 11 30)) ex_booked) = Inl SlotBooked"
proof -
  have other: "\<forall>a\<in>set (appointments ex_booked).
       a_nutritionist_id a = c_nutritionist_id (ex_request 2 (time_hm 10 30) (time_hm 11 30))
         \<and> a_date a = c_date (ex_request 2 (time_hm 10 30) (time_hm 11 30))
         \<and> a_status a = SCHEDULED
       \<longrightarrow> \<not> time_conflict (c_start_time (ex_request 2 (time_hm 10 30) (time_hm 11 30)))
               (c_end_time (ex_request 2 (time_hm 10 30) (time_hm 11 30)))
               (a_start_time a) (a_end_time a)"
    by (simp add: example_defs)
  have held: "\<exists>a\<in>set (appointments ex_booked). a_client_id a = 10 \<and> a_nutritionist_id a = 1
       \<and> a_status a = SCHEDULED \<and> a_date a = tuesday
       \<and> time_conflict (time_hm 10 30) (time_hm 11 30) (a_start_time a) (a_end_time a)"
    by (simp add: example_defs time_conflict_def)
  have same: "fst (create_appointment ex_clock 101 (ex_user 10 CLIENT)
        (ex_request 1 (time_hm 10 30) (time_hm 11 30)) ex_booked) = Inl SlotBooked"
    by (simp add: route_defs example_defs)
  show ?thesis
    using conflict_check_reads_target_nutritionist_only
            [OF other, of ex_clock 101 "ex_user 10 CLIENT"] held same
    by simp
qed

section \<open>Cancellation\<close>

text \<open>
  C7. A cancel request for an appointment whose status is already Cancelled is always
  rejected and returns the database as it was (status and \<open>updated_at\<close> included); for a
  caller who passes the route's permission test (the appointment's client, its
  nutritionist or an admin) the reason is \<open>AlreadyCancelled\<close>. A cancel request of such a
  caller for an appointment that is not Cancelled succeeds whatever the availability rules
  and the other appointments are: it stores the appointment with status Cancelled and
  \<open>updated_at\<close> stamped, and nothing else.
\<close>

theorem cancel_rejects_already_cancelled:
  assumes "get_appointment_by_id s appointment_id = Some appointment"
  shows "(a_status appointment = CANCELLED \<longrightarrow>
            isl (fst (cancel_appointment clk current_user appointment_id s))
            \<and> snd (cancel_appointment clk current_user appointment_id s) = s
            \<and> (\<not> not_enough_permissions current_user appointment \<longrightarrow>
                 cancel_appointment clk current_user appointment_id s = (Inl AlreadyCancelled, s)))
       \<and> (a_status appointment \<noteq> CANCELLED \<and> \<not> not_enough_permissions current_user appointment
            \<longrightarrow> cancel_appointment clk current_user appointment_id s
                = (Inr ''Appointment cancelled successfully'',
                   store_appointment
                     (appointment\<lparr>a_status := CANCELLED, a_updated_at := Some (utc_today clk)\<rparr>) s))"
  using assms by (simp add: cancel_appointment_def crud_cancel_appointment_def Let_def)

theorem cancel_rejects_already_cancelled_witness:
  "cancel_appointment ex_clock_at_slot (ex_user 10 CLIENT) 100 ex_cancelled
     = (Inl AlreadyCancelled, ex_cancelled)
   \<and> cancel_appointment ex_clock_at_slot (ex_user 10 CLIENT) 100
        (ex_booked\<lparr>availabilities := []\<rparr>)
     = (Inr ''Appointment cancelled successfully'',
        ex_practice\<lparr>availabilities := [],
          appointments :=
            [ex_appointment 100 10 1 (time_hm 10 0) (time_hm 11 0) CANCELLED tuesday]\<rparr>)"
proof -
  have found1: "get_appointment_by_id ex_cancelled 100
      = Some (ex_appointment 100 10 1 (time_hm 10 0) (time_hm 11 0) CANCELLED 739923)"
    by (simp add: get_appointment_by_id_def example_defs)
  have found2: "get_appointment_by_id (ex_booked\<lparr>availabilities := []\<rparr>) 100
      = Some (ex_appointment 100 10 1 (time_hm 10 0) (time_hm 11 0) SCHEDULED 739923)"
    by (simp add: get_appointment_by_id_def example_defs)
  show ?thesis
    using cancel_rejects_already_cancelled [OF found1, of ex_clock_at_slot "ex_user 10 CLIENT"]
          cancel_rejects_already_cancelled [OF found2, of ex_clock_at_slot "ex_user 10 CLIENT"]
    by (simp add: not_enough_permissions_def store_appointment_def example_defs)
qed

section \<open>Updating a Cancelled appointment\<close>




section \<open>Availability rules\<close>

text \<open>
  C9, as the code has it. Every availability rule accepted by \<open>create_availability\<close> has
  the field selected by \<open>is_recurring\<close> set: a recurring rule has a \<open>day_of_week\<close>, a
  rule that is not recurring has a \<open>specific_date\<close>. The other field is not required to
  be absent. (The rule also has \<open>start_time < end_time\<close>, belongs to the caller, and is the
  one row added.)
\<close>

theorem created_rule_has_its_selected_field:
  assumes "create_availability clk new_id current_user availability_in s = (Inr v, s')"
  shows "(if av_is_recurring v then av_day_of_week v \<noteq> None else av_specific_date v \<noteq> None)
       \<and> av_start_time v < av_end_time v
       \<and> av_nutritionist_id v = u_id current_user
       \<and> availabilities s' = availabilities s @ [v]"
  using assms
  by (auto simp: create_availability_def crud_create_availability_def Let_def
           split: if_splits)

theorem created_rule_has_its_selected_field_witness:
  "create_availability ex_clock 52 (ex_user 1 NUTRITIONIST)
      \<lparr>ac_day_of_week = None, ac_start_time = time_hm 9 0, ac_end_time = time_hm 12 0,
       ac_is_recurring = False, ac_specific_date = Some tuesday\<rparr> ex_practice
     = (Inr \<lparr>av_id = 52, av_nutritionist_id = 1, av_day_of_week = None,
             av_start_time = time_hm 9 0, av_end_time = time_hm 12 0, av_is_recurring = False,
             av_specific_date = Some tuesday, av_created_at = Some 739923,
             av_updated_at = Some 739923\<rparr>,
        ex_practice\<lparr>availabilities := [ex_rule 50 1, ex_rule 51 2,
           \<lparr>av_id = 52, av_nutritionist_id = 1, av_day_of_week = None,
             av_start_time = time_hm 9 0, av_end_time = time_hm 12 0, av_is_recurring = False,
             av_specific_date = Some tuesday, av_created_at = Some 739923,
             av_updated_at = Some 739923\<rparr>]\<rparr>)
   \<and> av_specific_date \<lparr>av_id = 52, av_nutritionist_id = 1, av_day_of_week = None,
             av_start_time = time_hm 9 0, av_end_time = time_hm 12 0, av_is_recurring = False,
             av_specific_date = Some tuesday, av_created_at = Some 739923,
             av_updated_at = Some 739923\<rparr> \<noteq> None"
proof -
  have accepted: "create_availability ex_clock 52 (ex_user 1 NUTRITIONIST)
      \<lparr>ac_day_of_week = None, ac_start_time = time_hm 9 0, ac_end_time = time_hm 12 0,
       ac_is_recurring = False, ac_specific_date = Some tuesday\<rparr> ex_practice
     = (Inr \<lparr>av_id = 52, av_nutritionist_id = 1, av_day_of_week = None,
             av_start_time = time_hm 9 0, av_end_time = time_hm 12 0, av_is_recurring = False,
             av_specific_date = Some tuesday, av_created_at = Some 739923,
             av_updated_at = Some 739923\<rparr>,
        ex_practice\<lparr>availabilities := [ex_rule 50 1, ex_rule 51 2,
           \<lparr>av_id = 52, av_nutritionist_id = 1, av_day_of_week = None,
             av_start_time = time_hm 9 0, av_end_time = time_hm 12 0, av_is_recurring = False,
             av_specific_date = Some tuesday, av_created_at = Some 739923,
             av_updated_at = Some 739923\<rparr>]\<rparr>)"
    by (simp add: route_defs example_defs)
  show ?thesis
    using created_rule_has_its_selected_field [OF accepted] accepted by simp
qed

text \<open>The claim as stated fails: a recurring rule sent with both a \<open>day_of_week\<close> and a
  \<open>specific_date\<close> is accepted and stored with both.\<close>

theorem recurring_rule_with_specific_date_is_accepted:
  "fst (create_availability ex_clock 52 (ex_user 1 NUTRITIONIST)
      \<lparr>ac_day_of_week = Some 1, ac_start_time = time_hm 9 0, ac_end_time = time_hm 12 0,
       ac_is_recurring = True, ac_specific_date = Some tuesday\<rparr> ex_practice)
     = Inr \<lparr>av_id = 52, av_nutritionist_id = 1, av_day_of_week = Some 1,
             av_start_time = time_hm 9 0, av_end_time = time_hm 12 0, av_is_recurring = True,
             av_specific_date = Some tuesday, av_created_at = Some 739923,
             av_updated_at = Some 739923\<rparr>"
  by (simp add: route_defs example_defs)

text \<open>\<open>update_availability\<close> validates the time range only: switching the Tuesday rule to
  not recurring, without a specific date, is accepted.\<close>

lemma update_availability_checks_no_selector:
  "fst (update_availability ex_clock (ex_user 1 NUTRITIONIST) 50
      \<lparr>au_day_of_week = None, au_start_time = time_hm 9 0, au_end_time = time_hm 17 0,
       au_is_recurring = Some False, au_specific_date = None\<rparr> ex_practice)
     = Inr ((ex_rule 50 1)\<lparr>av_is_recurring := False, av_updated_at := Some 739923\<rparr>)"
  by (simp add: route_defs example_defs)

section \<open>Double booking\<close>





end
